theory Spec2Isabelle
  imports Complex_Main
begin

section \<open>JavaScript values and HTTP outcomes\<close>

text \<open>
  The values a parsed JSON response can hold, with \<open>undefined\<close> for a missing
  property. An object is its list of members in document order; as in \<open>JSON.parse\<close>,
  the last member of a repeated name wins.
\<close>

datatype jsval =
    JUndefined
  | JNull
  | JBool bool
  | JNum rat
  | JStr string
  | JArr "jsval list"
  | JObj "(string \<times> jsval) list"

datatype js_error =
    TypeError
  | AxiosBadStatus nat
  | AxiosNetworkError
  | AxiosTimeout
  | PrivateKeyNotFound string

text \<open>What the network does with one request: a response with a status, or no response.\<close>

datatype 'a http_outcome = Response nat 'a | NetworkError | Timeout

text \<open>
  axios resolves a promise on a status from 200 to 299 (its default \<open>validateStatus\<close>)
  and rejects it on every other status, on a network error and on a timeout.
\<close>

fun axios_settle :: "'a http_outcome \<Rightarrow> js_error + 'a" where
  "axios_settle (Response s d) = (if 200 \<le> s \<and> s < 300 then Inr d else Inl (AxiosBadStatus s))"
| "axios_settle NetworkError = Inl AxiosNetworkError"
| "axios_settle Timeout = Inl AxiosTimeout"

fun truthy :: "jsval \<Rightarrow> bool" where
  "truthy JUndefined = False"
| "truthy JNull = False"
| "truthy (JBool b) = b"
| "truthy (JNum r) = (r \<noteq> 0)"
| "truthy (JStr s) = (s \<noteq> [])"
| "truthy (JArr xs) = True"
| "truthy (JObj kvs) = True"

definition js_or :: "jsval \<Rightarrow> jsval \<Rightarrow> jsval" where
  "js_or a b = (if truthy a then a else b)"

fun nullish :: "jsval \<Rightarrow> bool" where
  "nullish JUndefined = True"
| "nullish JNull = True"
| "nullish v = False"

text \<open>
  \<open>v.k\<close> for a value that is neither \<open>null\<close> nor \<open>undefined\<close> (there the access
  throws, which the callers below write out). The names read by this program are
  own members of an object, or \<open>length\<close> of an array or a string.
\<close>

fun get_prop :: "jsval \<Rightarrow> string \<Rightarrow> jsval" where
  "get_prop (JObj kvs) k = (case map_of (rev kvs) k of None \<Rightarrow> JUndefined | Some v \<Rightarrow> v)"
| "get_prop (JArr xs) k = (if k = ''length'' then JNum (of_nat (length xs)) else JUndefined)"
| "get_prop (JStr s) k = (if k = ''length'' then JNum (of_nat (length s)) else JUndefined)"
| "get_prop v k = JUndefined"

text \<open>\<open>v?.k\<close>: \<open>undefined\<close> when \<open>v\<close> is \<open>null\<close> or \<open>undefined\<close>.\<close>

definition opt_prop :: "jsval \<Rightarrow> string \<Rightarrow> jsval" where
  "opt_prop v k = (if nullish v then JUndefined else get_prop v k)"

fun isArray :: "jsval \<Rightarrow> bool" where
  "isArray (JArr xs) = True"
| "isArray v = False"

fun isString :: "jsval \<Rightarrow> bool" where
  "isString (JStr s) = True"
| "isString v = False"


section \<open>FollowersPage: fetchCollection\<close>

record collection =
  items :: "jsval list"
  total :: jsval

text \<open>
  \<open>normalizeItem\<close>: a string is returned as it is; an object (\<open>typeof item === "object"\<close>
  holds of arrays too) that is not \<open>null\<close> gives \<open>item.id || item.url || item.href || null\<close>;
  anything else gives \<open>null\<close>.
\<close>

fun normalizeItem :: "jsval \<Rightarrow> jsval" where
  "normalizeItem (JStr s) = JStr s"
| "normalizeItem (JObj kvs) =
     js_or (js_or (js_or (get_prop (JObj kvs) ''id'') (get_prop (JObj kvs) ''url''))
       (get_prop (JObj kvs) ''href'')) JNull"
| "normalizeItem (JArr xs) =
     js_or (js_or (js_or (get_prop (JArr xs) ''id'') (get_prop (JArr xs) ''url''))
       (get_prop (JArr xs) ''href'')) JNull"
| "normalizeItem v = JNull"

text \<open>
  The body of the \<open>try\<close> block after the response has arrived. \<open>res.data.orderedItems\<close>
  throws a TypeError when \<open>res.data\<close> is \<open>null\<close> or \<open>undefined\<close>, and \<open>items.map\<close>
  throws one when the chosen \<open>items\<close> is not an array.
\<close>

definition select_items :: "jsval \<Rightarrow> jsval \<times> jsval" where
  "select_items data =
     (if truthy (get_prop data ''orderedItems'') then
        (get_prop data ''orderedItems'', js_or (get_prop data ''totalItems'') (JNum 0))
      else if truthy (opt_prop (get_prop data ''first'') ''orderedItems'') then
        (get_prop (get_prop data ''first'') ''orderedItems'',
         js_or (js_or (get_prop (get_prop data ''first'') ''totalItems'') (get_prop data ''totalItems''))
           (JNum 0))
      else if truthy (get_prop data ''items'') then
        (get_prop data ''items'', js_or (get_prop data ''totalItems'') (JNum 0))
      else if isArray data then
        (data, get_prop data ''length'')
      else (JArr [], JNum 0))"

definition read_collection :: "jsval \<Rightarrow> js_error + collection" where
  "read_collection data =
     (if nullish data then Inl TypeError
      else (case select_items data of
              (JArr xs, t) \<Rightarrow>
                Inr \<lparr>items = filter (\<lambda>url. url \<noteq> JNull) (map normalizeItem xs), total = t\<rparr>
            | (_, t) \<Rightarrow> Inl TypeError))"

text \<open>
  \<open>fetchCollection(url)\<close>: the GET, then the \<open>try\<close> body; the \<open>catch\<close> turns every
  error into the empty collection. The first argument is the network.
\<close>

definition fetchCollection :: "(string \<Rightarrow> jsval http_outcome) \<Rightarrow> string \<Rightarrow> js_error + collection" where
  "fetchCollection get url =
     (case (case axios_settle (get url) of
              Inl e \<Rightarrow> Inl e
            | Inr data \<Rightarrow> read_collection data) of
        Inl err \<Rightarrow> Inr \<lparr>items = [], total = JNum 0\<rparr>
      | Inr c \<Rightarrow> Inr c)"


section \<open>FeedPage: handleLike\<close>

text \<open>
  A post of the feed: its \<open>_id\<close>, its \<open>likes\<close> (which may be missing), and whatever
  other fields the server sent, which are the extension of the record.
\<close>

record post =
  post_id :: string
  likes :: "string list option"

record 'p feed_state =
  feed :: "'p list"
  token :: "string option"
  userId :: string
  loading :: bool
  error :: "string option"

record 'p feed_net =
  like_request :: "string \<Rightarrow> string \<Rightarrow> unit http_outcome"
  feed_request :: "'p list option http_outcome"

text \<open>\<open>!token\<close>: a token that is \<open>null\<close>, \<open>undefined\<close> or the empty string.\<close>

definition no_token :: "string option \<Rightarrow> bool" where
  "no_token t = (case t of None \<Rightarrow> True | Some s \<Rightarrow> s = [])"

definition likes_or_empty :: "'a post_scheme \<Rightarrow> string list" where
  "likes_or_empty p = (case likes p of None \<Rightarrow> [] | Some l \<Rightarrow> l)"

text \<open>The function given to \<open>prevFeed.map\<close>.\<close>

definition toggle_like :: "string \<Rightarrow> string \<Rightarrow> 'a post_scheme \<Rightarrow> 'a post_scheme" where
  "toggle_like uid postId p =
     (if post_id p = postId then
        (let likesArray = likes_or_empty p;
             isLiked = uid \<in> set likesArray
         in p\<lparr>likes := Some (if isLiked then filter (\<lambda>i. i \<noteq> uid) likesArray
                               else likesArray @ [uid])\<rparr>)
      else p)"

definition fetchFeed :: "'p feed_net \<Rightarrow> 'p feed_state \<Rightarrow> 'p feed_state" where
  "fetchFeed net st =
     (case axios_settle (feed_request net) of
        Inr data \<Rightarrow>
          st\<lparr>feed := (case data of None \<Rightarrow> [] | Some f \<Rightarrow> f), error := None, loading := False\<rparr>
      | Inl e \<Rightarrow>
          st\<lparr>error := Some ''Failed to load feed. Please try again.'', loading := False\<rparr>)"

definition like_method :: "'a post_scheme feed_state \<Rightarrow> string \<Rightarrow> string" where
  "like_method st postId =
     (let currentLikes = (case find (\<lambda>p. post_id p = postId) (feed st) of
                            None \<Rightarrow> [] | Some p \<Rightarrow> likes_or_empty p)
      in if userId st \<in> set currentLikes then ''delete'' else ''post'')"

definition handleLike ::
  "'a post_scheme feed_net \<Rightarrow> 'a post_scheme feed_state \<Rightarrow> string \<Rightarrow> 'a post_scheme feed_state" where
  "handleLike net st postId =
     (if no_token (token st) \<or> postId = [] then st
      else
        (let st1 = st\<lparr>feed := map (toggle_like (userId st) postId) (feed st)\<rparr>
         in case axios_settle (like_request net (like_method st postId) postId) of
              Inr u \<Rightarrow> st1
            | Inl e \<Rightarrow> fetchFeed net st1))"


section \<open>The User model and its two read paths\<close>

text \<open>
  The \<open>User\<close> schema of KEY_MANAGEMENT.md, with the \<open>_id\<close> that every document of a
  collection has. \<open>password\<close> and \<open>privateKey\<close> are declared \<open>select: false\<close>; a field
  that a document does not carry is \<open>None\<close> (\<open>undefined\<close>).
\<close>

record user =
  user_id :: string
  username :: string
  password :: "string option"
  email :: string
  actorUrl :: string
  publicKey :: "string option"
  privateKey :: "string option"
  followers :: "string list"
  following :: "string list"

text \<open>A query without \<open>select\<close> leaves the \<open>select: false\<close> fields out of the document.\<close>

definition default_select :: "user \<Rightarrow> user" where
  "default_select u = u\<lparr>password := None, privateKey := None\<rparr>"

text \<open>\<open>.select("+privateKey")\<close> adds the private key to the default fields.\<close>

definition select_plus_privateKey :: "user \<Rightarrow> user" where
  "select_plus_privateKey u = u\<lparr>password := None\<rparr>"

text \<open>\<open>User.findOne({ username })\<close>\<close>

definition findOne :: "user list \<Rightarrow> string \<Rightarrow> user option" where
  "findOne db name = map_option default_select (find (\<lambda>u. username u = name) db)"

text \<open>\<open>User.findOne({ username }).select("+privateKey")\<close>\<close>

definition findOne_select_privateKey :: "user list \<Rightarrow> string \<Rightarrow> user option" where
  "findOne_select_privateKey db name =
     map_option select_plus_privateKey (find (\<lambda>u. username u = name) db)"

text \<open>A stored user with the private key blanked: what two collections that differ
  only in private keys have in common.\<close>

definition without_privateKey :: "user \<Rightarrow> user" where
  "without_privateKey u = u\<lparr>privateKey := None\<rparr>"

text \<open>
  A stored user with the private key replaced by a mark that says only whether there
  is one: what two collections have in common that store private keys for the same
  users and differ in the key material.
\<close>

definition mask_privateKey :: "user \<Rightarrow> user" where
  "mask_privateKey u =
     u\<lparr>privateKey := (case privateKey u of
                          None \<Rightarrow> None
                        | Some k \<Rightarrow> if k = [] then Some [] else Some ''*'')\<rparr>"

text \<open>
  \<open>exports.actor\<close>, the handler of \<open>GET /users/:username\<close>: the JSON document it sends.
  Reading \<open>user.publicKey\<close> of a user that was not found throws.
\<close>

definition actor :: "string \<Rightarrow> user list \<Rightarrow> string \<Rightarrow> js_error + jsval" where
  "actor BASE_URL db uname =
     (case findOne db uname of
        None \<Rightarrow> Inl TypeError
      | Some user \<Rightarrow>
          Inr (JObj
            [(''@context'', JArr [JStr ''https://www.w3.org/ns/activitystreams'']),
             (''id'', JStr (BASE_URL @ ''/users/'' @ uname)),
             (''type'', JStr ''Person''),
             (''preferredUsername'', JStr uname),
             (''publicKey'', JObj
                [(''id'', JStr (BASE_URL @ ''/users/'' @ uname @ ''#main-key'')),
                 (''owner'', JStr (BASE_URL @ ''/users/'' @ uname)),
                 (''publicKeyPem'',
                    (case publicKey user of None \<Rightarrow> JUndefined | Some k \<Rightarrow> JStr k))])]))"


section \<open>Key generation in the pre-save hook\<close>

record keygen_options =
  modulusLength :: nat
  publicKeyEncoding :: "string \<times> string"
  privateKeyEncoding :: "string \<times> string"

text \<open>The options every call of \<open>crypto.generateKeyPairSync("rsa", ...)\<close> passes.\<close>

definition rsa_options :: keygen_options where
  "rsa_options =
     \<lparr>modulusLength = 2048,
      publicKeyEncoding = (''spki'', ''pem''),
      privateKeyEncoding = (''pkcs8'', ''pem'')\<rparr>"

text \<open>
  What one call of \<open>crypto.generateKeyPairSync\<close> returns for an algorithm and its
  options: the pair \<open>(publicKey, privateKey)\<close>. Two calls are two such functions.
\<close>

type_synonym keygen = "string \<Rightarrow> keygen_options \<Rightarrow> string \<times> string"

text \<open>\<open>!this.publicKey\<close>: the key is \<open>undefined\<close> or the empty string.\<close>

definition no_key :: "string option \<Rightarrow> bool" where
  "no_key k = (case k of None \<Rightarrow> True | Some s \<Rightarrow> s = [])"

text \<open>
  The key part of \<open>userSchema.pre("save")\<close> on the document \<open>this\<close> (the password
  hashing before it is elided in KEY_MANAGEMENT.md).
\<close>

definition pre_save :: "keygen \<Rightarrow> user \<Rightarrow> user" where
  "pre_save gen this =
     (if no_key (publicKey this) \<or> no_key (privateKey this) then
        (case gen ''rsa'' rsa_options of
           (pub, priv) \<Rightarrow> this\<lparr>publicKey := Some pub, privateKey := Some priv\<rparr>)
      else this)"

text \<open>
  Writing a saved document over its stored record: a \<open>select: false\<close> field that the
  document does not carry was not modified and keeps its stored value.
\<close>

definition write_back :: "user \<Rightarrow> user \<Rightarrow> user" where
  "write_back stored doc =
     doc\<lparr>password := (case password doc of None \<Rightarrow> password stored | Some p \<Rightarrow> Some p),
         privateKey := (case privateKey doc of None \<Rightarrow> privateKey stored | Some k \<Rightarrow> Some k)\<rparr>"

text \<open>
  \<open>doc.save()\<close>: the pre-save hook runs on the document, then the document is stored:
  written over the stored record that has its \<open>_id\<close>, or inserted when no stored record
  has it. The result is the collection and the document as the caller now holds it.
\<close>

definition save :: "keygen \<Rightarrow> user list \<Rightarrow> user \<Rightarrow> user list \<times> user" where
  "save gen db doc =
     (let doc' = pre_save gen doc
      in (if \<exists>u \<in> set db. user_id u = user_id doc'
          then map (\<lambda>u. if user_id u = user_id doc' then write_back u doc' else u) db
          else db @ [doc'],
          doc'))"

text \<open>
  The re-save of the troubleshooting section:
  \<open>const user = await User.findOne({ username }); await user.save();\<close>
\<close>

definition resave :: "keygen \<Rightarrow> user list \<Rightarrow> string \<Rightarrow> js_error + user list" where
  "resave gen db name =
     (case findOne db name of
        None \<Rightarrow> Inl TypeError
      | Some user \<Rightarrow> Inr (fst (save gen db user)))"

text \<open>
  The manual regeneration of the troubleshooting section, which reads the user with
  \<open>.select("+privateKey")\<close> before it tests the same condition as the hook.
\<close>

definition regenerate_keys :: "keygen \<Rightarrow> user list \<Rightarrow> string \<Rightarrow> js_error + user list" where
  "regenerate_keys gen db name =
     (case findOne_select_privateKey db name of
        None \<Rightarrow> Inl TypeError
      | Some user \<Rightarrow>
          (if no_key (publicKey user) \<or> no_key (privateKey user) then
             (case gen ''rsa'' rsa_options of
                (pub, priv) \<Rightarrow>
                  Inr (fst (save gen db (user\<lparr>publicKey := Some pub, privateKey := Some priv\<rparr>))))
           else Inr db))"

text \<open>The keys a collection stores for a username.\<close>

definition stored_keys :: "user list \<Rightarrow> string \<Rightarrow> (string option \<times> string option) option" where
  "stored_keys db name =
     map_option (\<lambda>u. (publicKey u, privateKey u)) (find (\<lambda>u. username u = name) db)"

text \<open>
  The line that \<open>migrateKeys\<close> logs for a user: a check mark (three bytes in UTF-8),
  then \<open>Generated keys for\<close> and the username.
\<close>

definition generated_keys_line :: "string \<Rightarrow> string" where
  "generated_keys_line name = [CHR 0xE2, CHR 0x9C, CHR 0x85] @ '' Generated keys for '' @ name"

text \<open>
  \<open>migrateKeys\<close> of the migration guide: all users are read with
  \<open>User.find({}).select("+privateKey")\<close>; for each one that lacks a key a pair is
  generated, the user is saved and a line is logged. The first argument gives, for a
  username, the call of \<open>crypto.generateKeyPairSync\<close> made for that user. The result is
  the collection afterwards and the lines logged, in order.
\<close>

fun migrate_users :: "(string \<Rightarrow> keygen) \<Rightarrow> user list \<Rightarrow> user list \<Rightarrow> user list \<times> string list" where
  "migrate_users gens [] db = (db, [])"
| "migrate_users gens (user # users) db =
     (if no_key (publicKey user) \<or> no_key (privateKey user) then
        (case gens (username user) ''rsa'' rsa_options of
           (pub, priv) \<Rightarrow>
             (case migrate_users gens users
                     (fst (save (gens (username user)) db
                        (user\<lparr>publicKey := Some pub, privateKey := Some priv\<rparr>))) of
                (db', logged) \<Rightarrow> (db', generated_keys_line (username user) # logged)))
      else migrate_users gens users db)"

definition migrateKeys :: "(string \<Rightarrow> keygen) \<Rightarrow> user list \<Rightarrow> user list \<times> string list" where
  "migrateKeys gens db = migrate_users gens (map select_plus_privateKey db) db"


section \<open>Signing and sending: sendSignedRequest\<close>

text \<open>\<open>new URL(inboxUrl)\<close>, as far as the signer reads it.\<close>

record url =
  host :: string
  pathname :: string

record http_request =
  req_method :: string
  req_url :: string
  req_headers :: "(string \<times> string) list"
  req_body :: string

text \<open>
  What \<open>sendSignedRequest\<close> takes from its surroundings: the environment variable, the
  clock (\<open>new Date().toUTCString()\<close>), \<open>JSON.stringify\<close>, the hash
  \<open>crypto.createHash("sha256").update(s).digest("base64")\<close>, the signature
  \<open>crypto.createSign("rsa-sha256")\<close> of a message under a private key as base64,
  and the URL parser (\<open>None\<close> when \<open>new URL\<close> throws).
\<close>

record send_env =
  BASE_URL :: string
  toUTCString_now :: string
  stringify :: "jsval \<Rightarrow> string"
  sha256_base64 :: "string \<Rightarrow> string"
  sign_base64 :: "string \<Rightarrow> string \<Rightarrow> string"
  parse_url :: "string \<Rightarrow> url option"

text \<open>
  What comes of one call of \<open>axios.post\<close> as \<open>sendSignedRequest\<close> makes it, that is
  with no timeout configured: the status of the final response (after the redirects
  that axios follows by itself), a connection that fails, or no response at all.
\<close>

datatype wire = Final_status nat | Connection_error | No_response

text \<open>
  The network as the sender meets it: what will come of the first, second, ... request
  posted, and the requests posted so far.
\<close>

record network =
  answer_to :: "nat \<Rightarrow> wire"
  posted :: "http_request list"

text \<open>
  How the promise of \<open>axios.post\<close> settles: resolved on a final status from 200 to 299,
  rejected on any other status and on a failed connection. With no response and no
  timeout it never settles, which is \<open>None\<close>.
\<close>

fun settle_post :: "wire \<Rightarrow> (js_error + unit) option" where
  "settle_post (Final_status s) =
     (if 200 \<le> s \<and> s < 300 then Some (Inr ()) else Some (Inl (AxiosBadStatus s)))"
| "settle_post Connection_error = Some (Inl AxiosNetworkError)"
| "settle_post No_response = None"

text \<open>One call of \<open>axios.post\<close>: the request is posted, and the promise settles or not.\<close>

definition axios_post :: "network \<Rightarrow> http_request \<Rightarrow> (js_error + unit) option \<times> network" where
  "axios_post net r =
     (settle_post (answer_to net (length (posted net))), net\<lparr>posted := posted net @ [r]\<rparr>)"

definition newline :: string where
  "newline = [CHR 0x0A]"

definition dquote :: string where
  "dquote = [CHR 0x22]"

text \<open>The template literal \<open>signatureHeaders\<close> of \<open>sendSignedRequest\<close>.\<close>

definition signatureHeaders :: "string \<Rightarrow> string \<Rightarrow> string \<Rightarrow> string \<Rightarrow> string" where
  "signatureHeaders path hst date digest =
     ''(request-target): post '' @ path @ newline @
     ''host: '' @ hst @ newline @
     ''date: '' @ date @ newline @
     ''digest: SHA-256='' @ digest"

text \<open>
  The canonical string in the words of the specification: one line \<open>name: value\<close> per
  signed header, in the order (request-target), host, date, digest, the lines joined by
  line feeds. The value of (request-target) is the method and the path, the value of
  digest is the Digest header. Signer and verifier are both specified to build it.
\<close>

definition header_line :: "string \<times> string \<Rightarrow> string" where
  "header_line nv = fst nv @ '': '' @ snd nv"

fun join_lines :: "string list \<Rightarrow> string" where
  "join_lines [] = []"
| "join_lines [l] = l"
| "join_lines (l # ls) = l @ newline @ join_lines ls"

definition canonicalString_spec ::
  "string \<Rightarrow> string \<Rightarrow> string \<Rightarrow> string \<Rightarrow> string \<Rightarrow> string" where
  "canonicalString_spec method path hst date digest =
     join_lines (map header_line
       [(''(request-target)'', method @ '' '' @ path),
        (''host'', hst),
        (''date'', date),
        (''digest'', digest)])"


text \<open>
  Modelled from the spec: the \<open>headers\<close> object that \<open>sendSignedRequest\<close> passes to
  \<open>axios.post\<close>, which the snippet of KEY_MANAGEMENT.md uses and never defines. The
  specification gives the header set (Host, Date, Digest, Signature), the Digest value
  \<open>SHA-256=<digest>\<close>, the key id (the actor id followed by \<open>#main-key\<close>) and the
  Signature value built by \<open>buildHeader\<close>.
\<close>

definition signed_header_names :: "string list" where
  "signed_header_names = [''(request-target)'', ''host'', ''date'', ''digest'']"

fun join_spaces :: "string list \<Rightarrow> string" where
  "join_spaces [] = []"
| "join_spaces [w] = w"
| "join_spaces (w # ws) = w @ '' '' @ join_spaces ws"

definition buildHeader :: "string \<Rightarrow> string list \<Rightarrow> string \<Rightarrow> string" where
  "buildHeader keyId headerNames signatureBase64 =
     ''keyId='' @ dquote @ keyId @ dquote @
     '',algorithm='' @ dquote @ ''rsa-sha256'' @ dquote @
     '',headers='' @ dquote @ join_spaces headerNames @ dquote @
     '',signature='' @ dquote @ signatureBase64 @ dquote"

definition request_headers ::
  "string \<Rightarrow> string \<Rightarrow> string \<Rightarrow> string \<Rightarrow> string \<Rightarrow> (string \<times> string) list" where
  "request_headers hst date digest keyId signature =
     [(''Host'', hst),
      (''Date'', date),
      (''Digest'', ''SHA-256='' @ digest),
      (''Signature'', buildHeader keyId signed_header_names signature)]"

text \<open>
  Steps 1 to 3 of \<open>sendSignedRequest\<close> and the arguments of its \<open>axios.post\<close>: the
  request that goes out, or the error thrown before anything is sent. axios sends the
  activity object as its \<open>JSON.stringify\<close>.
\<close>

definition signed_request ::
  "send_env \<Rightarrow> user list \<Rightarrow> string \<Rightarrow> string \<Rightarrow> jsval \<Rightarrow> js_error + http_request" where
  "signed_request env db actorUsername inboxUrl activity =
     (case findOne_select_privateKey db actorUsername of
        None \<Rightarrow> Inl (PrivateKeyNotFound actorUsername)
      | Some user \<Rightarrow>
          (case privateKey user of
             None \<Rightarrow> Inl (PrivateKeyNotFound actorUsername)
           | Some key \<Rightarrow>
               (if key = [] then Inl (PrivateKeyNotFound actorUsername)
                else
                  (let date = toUTCString_now env;
                       digest = sha256_base64 env (stringify env activity)
                   in case parse_url env inboxUrl of
                        None \<Rightarrow> Inl TypeError
                      | Some u \<Rightarrow>
                          (let signature =
                                 sign_base64 env key
                                   (signatureHeaders (pathname u) (host u) date digest)
                           in Inr \<lparr>req_method = ''POST'',
                                   req_url = inboxUrl,
                                   req_headers =
                                     request_headers (host u) date digest
                                       (BASE_URL env @ ''/users/'' @ actorUsername @ ''#main-key'')
                                       signature,
                                   req_body = stringify env activity\<rparr>)))))"

text \<open>
  \<open>sendSignedRequest\<close>: an error thrown while the request is built leaves the network
  untouched; otherwise there is the one \<open>await axios.post\<close>, whose rejection is not
  caught. The result is how the call ends (\<open>None\<close>: it never returns) and the network
  afterwards.
\<close>

definition sendSignedRequest ::
  "send_env \<Rightarrow> user list \<Rightarrow> string \<Rightarrow> string \<Rightarrow> jsval \<Rightarrow> network
     \<Rightarrow> (js_error + unit) option \<times> network" where
  "sendSignedRequest env db actorUsername inboxUrl activity net =
     (case signed_request env db actorUsername inboxUrl activity of
        Inl e \<Rightarrow> (Some (Inl e), net)
      | Inr req \<Rightarrow> axios_post net req)"


section \<open>Delivery outcomes\<close>

text \<open>The status of a DeliveryTask in the specification's data model.\<close>

datatype delivery_status = Pending | In_flight | Delivered | Retry_scheduled | Abandoned

text \<open>
  The outcome policy in the words of the specification, for what comes of an attempt
  (no response within the time limit being the timeout), the number of attempts made,
  this one included, and the maximum attempt count. Statuses the policy does not name
  give \<open>None\<close>.
\<close>

fun outcome_policy_spec :: "wire \<Rightarrow> nat \<Rightarrow> nat \<Rightarrow> delivery_status option" where
  "outcome_policy_spec (Final_status s) attempt max_attempts =
     (if 200 \<le> s \<and> s < 300 then Some Delivered
      else if (500 \<le> s \<and> s < 600) \<or> s = 429 then
        Some (if attempt < max_attempts then Retry_scheduled else Abandoned)
      else if 400 \<le> s \<and> s < 500 then Some Abandoned
      else None)"
| "outcome_policy_spec Connection_error attempt max_attempts =
     Some (if attempt < max_attempts then Retry_scheduled else Abandoned)"
| "outcome_policy_spec No_response attempt max_attempts =
     Some (if attempt < max_attempts then Retry_scheduled else Abandoned)"


section \<open>The inbox\<close>

text \<open>
  An inbound request to \<open>POST /users/:username/inbox\<close>: its headers as received
  (Signature, Date, Digest, Host, if any) and the actor of the Follow activity in its body.
\<close>

record inbox_request =
  in_headers :: "(string \<times> string) list"
  in_actor :: string

datatype outbound_activity = Accept string string

text \<open>
  The inbox handler on a Follow, as the incoming flow of KEY_MANAGEMENT.md gives it:
  receive the activity; (TODO: verify the signature); add the remote actor to the local
  user's followers; send an Accept. The result is the local user as stored afterwards
  and the activity sent back.
\<close>

definition inbox_follow :: "user \<Rightarrow> inbox_request \<Rightarrow> user \<times> outbound_activity" where
  "inbox_follow local req =
     (local\<lparr>followers := followers local @ [in_actor req]\<rparr>,
      Accept (actorUrl local) (in_actor req))"


section \<open>Example data\<close>

definition alice :: user where
  "alice =
     \<lparr>user_id = ''65c4e1a0'', username = ''alice'', password = Some ''hashed'', email = ''alice@local.example'',
      actorUrl = ''https://local.example/users/alice'',
      publicKey = Some ''PUBLIC-A'', privateKey = Some ''PRIVATE-A'',
      followers = [], following = []\<rparr>"

definition bob_uri :: string where
  "bob_uri = ''https://remote.example/users/bob''"

definition bob_inbox :: string where
  "bob_inbox = ''https://remote.example/users/bob/inbox''"

definition follow_bob :: jsval where
  "follow_bob =
     JObj [(''type'', JStr ''Follow''),
           (''actor'', JStr ''https://local.example/users/alice''),
           (''object'', JStr ''https://remote.example/users/bob'')]"

text \<open>
  An environment with stand-ins for the hash and the signature, enough to run the
  sender on a concrete input.
\<close>

definition example_env :: send_env where
  "example_env =
     \<lparr>BASE_URL = ''https://local.example'',
      toUTCString_now = ''Mon, 02 Nov 2026 10:00:00 GMT'',
      stringify = (\<lambda>v. ''follow-json''),
      sha256_base64 = (\<lambda>s. ''hash-of-'' @ s),
      sign_base64 = (\<lambda>key msg. ''signed-with-'' @ key),
      parse_url = (\<lambda>s. Some \<lparr>host = ''remote.example'', pathname = ''/users/bob/inbox''\<rparr>)\<rparr>"

text \<open>
  A network on which nothing has been posted yet and where the first request meets
  the given outcome and every later one a 200.
\<close>

definition example_network :: "wire \<Rightarrow> network" where
  "example_network first =
     \<lparr>answer_to = (\<lambda>n. if n = 0 then first else Final_status 200), posted = []\<rparr>"

text \<open>
  A Follow from bob with no Signature header at all, and one whose Date header is six
  minutes older than the time \<open>10:00:00 GMT\<close> at which it arrives.
\<close>

definition unsigned_follow :: inbox_request where
  "unsigned_follow = \<lparr>in_headers = [(''Host'', ''local.example'')], in_actor = bob_uri\<rparr>"

definition stale_follow :: inbox_request where
  "stale_follow =
     \<lparr>in_headers =
        [(''Host'', ''local.example''),
         (''Date'', ''Mon, 02 Nov 2026 09:54:00 GMT''),
         (''Digest'', ''SHA-256=hash-of-follow-json''),
         (''Signature'',
            buildHeader (bob_uri @ ''#main-key'') signed_header_names ''signed-with-PRIVATE-BOB'')],
      in_actor = bob_uri\<rparr>"

text \<open>The request that \<open>sendSignedRequest\<close> builds for alice's Follow in that environment.\<close>

definition example_request :: http_request where
  "example_request =
     \<lparr>req_method = ''POST'', req_url = bob_inbox,
      req_headers =
        request_headers ''remote.example'' ''Mon, 02 Nov 2026 10:00:00 GMT''
          ''hash-of-follow-json'' ''https://local.example/users/alice#main-key''
          ''signed-with-PRIVATE-A'',
      req_body = ''follow-json''\<rparr>"

definition fresh_keys :: keygen where
  "fresh_keys alg opts = (''PUBLIC-B'', ''PRIVATE-B'')"

definition liked_post :: post where
  "liked_post = \<lparr>post_id = ''p1'', likes = Some [''u2'']\<rparr>"

definition other_post :: post where
  "other_post = \<lparr>post_id = ''p2'', likes = None\<rparr>"

definition example_state :: "string option \<Rightarrow> post feed_state" where
  "example_state tok =
     \<lparr>feed = [liked_post, other_post], token = tok, userId = ''u1'',
      loading = False, error = None\<rparr>"

definition example_net :: "unit http_outcome \<Rightarrow> post feed_net" where
  "example_net answer =
     \<lparr>like_request = (\<lambda>method postId. answer),
      feed_request = Response 200 (Some [])\<rparr>"


section \<open>fetchCollection: totality and what it returns\<close>

lemma fetchCollection_total: "\<exists>c. fetchCollection get url = Inr c"
  by (simp add: fetchCollection_def split: sum.splits)

lemma fetchCollection_on_error:
  "axios_settle (get url) = Inl e \<Longrightarrow>
   fetchCollection get url = Inr \<lparr>items = [], total = JNum 0\<rparr>"
  by (simp add: fetchCollection_def)

lemma read_collection_not_null:
  "read_collection data = Inr c \<Longrightarrow> JNull \<notin> set (items c)"
  by (auto simp: read_collection_def split: if_splits prod.splits jsval.splits)

lemma fetchCollection_not_null:
  "fetchCollection get url = Inr c \<Longrightarrow> JNull \<notin> set (items c)"
  by (auto simp: fetchCollection_def dest: read_collection_not_null split: sum.splits)

lemma normalizeItem_of_string: "normalizeItem (JStr s) = JStr s"
  by simp

text \<open>
  C10. The claim: \<open>fetchCollection\<close> never throws, returns the empty collection on any
  fetch error, and every element of the returned items is a non-null string. The first
  two parts hold (\<open>fetchCollection_total\<close>, \<open>fetchCollection_on_error\<close>), and no element
  is \<open>null\<close> (\<open>fetchCollection_not_null\<close>). The last part fails: \<open>normalizeItem\<close> returns
  \<open>item.id || item.url || item.href\<close> without looking at its type, so for the response
  \<open>{"orderedItems": [{"id": 42}]}\<close> the returned items are \<open>[42]\<close>, a number, although the
  comments of the function promise URL strings with invalid entries filtered out.
\<close>

theorem fetchCollection_keeps_numeric_id:
  "fetchCollection
     (\<lambda>url. Response 200 (JObj [(''orderedItems'', JArr [JObj [(''id'', JNum 42)]])]))
     ''https://local.example/users/alice/followers''
   = Inr \<lparr>items = [JNum 42], total = JNum 0\<rparr>
   \<and> \<not> isString (JNum 42)"
  by (simp add: fetchCollection_def read_collection_def select_items_def js_or_def)


section \<open>handleLike: the frame of the optimistic update\<close>

lemma toggle_like_effect:
  "(post_id p \<noteq> postId \<longrightarrow> toggle_like uid postId p = p) \<and>
   (post_id p = postId \<longrightarrow>
      toggle_like uid postId p =
        p\<lparr>likes := Some (if uid \<in> set (likes_or_empty p)
                          then filter (\<lambda>i. i \<noteq> uid) (likes_or_empty p)
                          else likes_or_empty p @ [uid])\<rparr> \<and>
      (uid \<in> set (likes_or_empty (toggle_like uid postId p))
         \<longleftrightarrow> uid \<notin> set (likes_or_empty p)) \<and>
      (\<forall>v. v \<noteq> uid \<longrightarrow>
         (v \<in> set (likes_or_empty (toggle_like uid postId p))
            \<longleftrightarrow> v \<in> set (likes_or_empty p))))"
  by (auto simp: toggle_like_def Let_def likes_or_empty_def)

lemma handleLike_guard:
  "no_token (token st) \<or> postId = [] \<Longrightarrow> handleLike net st postId = st"
  by (simp add: handleLike_def)

lemma handleLike_request_failed:
  "\<not> no_token (token st) \<Longrightarrow> postId \<noteq> [] \<Longrightarrow>
   axios_settle (like_request net (like_method st postId) postId) = Inl e \<Longrightarrow>
   handleLike net st postId =
     fetchFeed net (st\<lparr>feed := map (toggle_like (userId st) postId) (feed st)\<rparr>)"
  by (simp add: handleLike_def)

text \<open>
  C9, the claim as stated fails. It promises the toggle for every feed and every postId
  in it. Without a token \<open>handleLike\<close> returns at its guard \<open>if (!token || !postId) return\<close>:
  the post \<open>p1\<close> of the feed, which user \<open>u1\<close> has not liked, is still not liked by \<open>u1\<close>
  afterwards. And when the like request fails, the \<open>catch\<close> reloads the feed, so a post
  with another id (\<open>p2\<close>) does not stay as it was: here the server returns an empty feed.
\<close>

theorem handleLike_guard_counterexample:
  "post_id liked_post = ''p1''
   \<and> liked_post \<in> set (feed (example_state None))
   \<and> userId (example_state None) = ''u1''
   \<and> ''u1'' \<notin> set (likes_or_empty liked_post)
   \<and> feed (handleLike (example_net (Response 200 ())) (example_state None) ''p1'')
       = feed (example_state None)
   \<and> other_post \<in> set (feed (example_state (Some ''jwt'')))
   \<and> post_id other_post \<noteq> ''p1''
   \<and> feed (handleLike (example_net (Response 500 ())) (example_state (Some ''jwt'')) ''p1'') = []"
  by (simp add: handleLike_def fetchFeed_def example_state_def example_net_def liked_post_def
      other_post_def likes_or_empty_def no_token_def)

text \<open>
  C9, amended. When a token is set, postId is not empty and the like request succeeds,
  the feed after \<open>handleLike(postId)\<close> has the posts of the feed before it, in the same
  order; every post whose \<open>_id\<close> differs from postId is unchanged; a post whose \<open>_id\<close> is
  postId differs only in its \<open>likes\<close>, where the current userId is removed if it was
  present and appended if it was absent (a missing \<open>likes\<close> counts as empty), and where
  the membership of every other id is as before. (Without a token or with an empty
  postId nothing changes, \<open>handleLike_guard\<close>; when the request fails the feed is
  reloaded, \<open>handleLike_request_failed\<close>.)
\<close>

theorem handleLike_toggles_target_only:
  assumes tok: "\<not> no_token (token st)"
    and pid: "postId \<noteq> []"
    and ok: "axios_settle (like_request net (like_method st postId) postId) = Inr ()"
  shows "length (feed (handleLike net st postId)) = length (feed st) \<and>
    (\<forall>i < length (feed st).
       (post_id (feed st ! i) \<noteq> postId \<longrightarrow>
          feed (handleLike net st postId) ! i = feed st ! i) \<and>
       (post_id (feed st ! i) = postId \<longrightarrow>
          feed (handleLike net st postId) ! i =
            (feed st ! i)\<lparr>likes :=
               Some (if userId st \<in> set (likes_or_empty (feed st ! i))
                     then filter (\<lambda>i. i \<noteq> userId st) (likes_or_empty (feed st ! i))
                     else likes_or_empty (feed st ! i) @ [userId st])\<rparr> \<and>
          (userId st \<in> set (likes_or_empty (feed (handleLike net st postId) ! i))
             \<longleftrightarrow> userId st \<notin> set (likes_or_empty (feed st ! i))) \<and>
          (\<forall>v. v \<noteq> userId st \<longrightarrow>
             (v \<in> set (likes_or_empty (feed (handleLike net st postId) ! i))
                \<longleftrightarrow> v \<in> set (likes_or_empty (feed st ! i))))))"
proof -
  have eq: "feed (handleLike net st postId) = map (toggle_like (userId st) postId) (feed st)"
    using tok pid ok by (simp add: handleLike_def)
  have len: "length (feed (handleLike net st postId)) = length (feed st)"
    by (simp add: eq)
  have nth: "feed (handleLike net st postId) ! i = toggle_like (userId st) postId (feed st ! i)"
    if "i < length (feed st)" for i
    using that by (simp add: eq)
  show ?thesis
  proof (rule conjI [OF len], intro allI impI)
    fix i
    assume i: "i < length (feed st)"
    show "(post_id (feed st ! i) \<noteq> postId \<longrightarrow>
            feed (handleLike net st postId) ! i = feed st ! i) \<and>
          (post_id (feed st ! i) = postId \<longrightarrow>
            feed (handleLike net st postId) ! i =
              (feed st ! i)\<lparr>likes :=
                 Some (if userId st \<in> set (likes_or_empty (feed st ! i))
                       then filter (\<lambda>i. i \<noteq> userId st) (likes_or_empty (feed st ! i))
                       else likes_or_empty (feed st ! i) @ [userId st])\<rparr> \<and>
            (userId st \<in> set (likes_or_empty (feed (handleLike net st postId) ! i))
               \<longleftrightarrow> userId st \<notin> set (likes_or_empty (feed st ! i))) \<and>
            (\<forall>v. v \<noteq> userId st \<longrightarrow>
               (v \<in> set (likes_or_empty (feed (handleLike net st postId) ! i))
                  \<longleftrightarrow> v \<in> set (likes_or_empty (feed st ! i)))))"
      unfolding nth [OF i]
      by (rule toggle_like_effect)
  qed
qed

text \<open>
  The amended C9 at a concrete feed: user \<open>u1\<close>, holding a token, likes post \<open>p1\<close>, which
  \<open>u2\<close> had liked; the request succeeds. \<open>p1\<close> gains \<open>u1\<close> and \<open>p2\<close> is untouched.
\<close>

theorem handleLike_toggles_target_only_witness:
  "\<not> no_token (token (example_state (Some ''jwt'')))
   \<and> ''p1'' \<noteq> []
   \<and> axios_settle (like_request (example_net (Response 200 ()))
         (like_method (example_state (Some ''jwt'')) ''p1'') ''p1'') = Inr ()
   \<and> feed (handleLike (example_net (Response 200 ())) (example_state (Some ''jwt'')) ''p1'') ! 0
       = liked_post\<lparr>likes := Some [''u2'', ''u1'']\<rparr>
   \<and> feed (handleLike (example_net (Response 200 ())) (example_state (Some ''jwt'')) ''p1'') ! 1
       = other_post"
proof -
  let ?st = "example_state (Some ''jwt'')"
  let ?net = "example_net (Response 200 ())"
  have h1: "\<not> no_token (token ?st)"
    by (simp add: example_state_def no_token_def)
  have h2: "''p1'' \<noteq> []"
    by simp
  have h3: "axios_settle (like_request ?net (like_method ?st ''p1'') ''p1'') = Inr ()"
    by (simp add: example_net_def)
  have feed0: "feed ?st ! 0 = liked_post" and feed1: "feed ?st ! 1 = other_post"
    and len: "length (feed ?st) = 2"
    by (simp_all add: example_state_def)
  note T = handleLike_toggles_target_only [OF h1 h2 h3, THEN conjunct2, rule_format]
  have a: "feed (handleLike ?net ?st ''p1'') ! 0 = liked_post\<lparr>likes := Some [''u2'', ''u1'']\<rparr>"
    using T [of 0, THEN conjunct2] feed0 len
    by (simp add: liked_post_def likes_or_empty_def example_state_def)
  have b: "feed (handleLike ?net ?st ''p1'') ! 1 = other_post"
    using T [of 1, THEN conjunct1] feed1 len
    by (simp add: other_post_def)
  show ?thesis
    using h1 h2 h3 a b by simp
qed


section \<open>The private key and the two read paths\<close>

lemma find_username_map:
  assumes "\<And>u. username (h u) = username u"
  shows "find (\<lambda>u. username u = n) (map h db)
           = map_option h (find (\<lambda>u. username u = n) db)"
  using assms by (induction db) auto

lemma without_privateKey_default_select:
  "default_select (without_privateKey u) = default_select u"
  by (simp add: default_select_def without_privateKey_def)

lemma findOne_without_privateKey:
  "findOne (map without_privateKey db) name = findOne db name"
proof -
  have "find (\<lambda>u. username u = name) (map without_privateKey db)
          = map_option without_privateKey (find (\<lambda>u. username u = name) db)"
    by (rule find_username_map) (simp add: without_privateKey_def)
  then show ?thesis
    by (simp add: findOne_def option.map_comp comp_def without_privateKey_default_select)
qed

lemma findOne_hides:
  "findOne db name = Some u \<Longrightarrow> privateKey u = None \<and> password u = None"
  by (auto simp: findOne_def default_select_def)

lemma findOne_select_privateKey_returns:
  "find (\<lambda>u. username u = name) db = Some u \<Longrightarrow>
   map_option privateKey (findOne_select_privateKey db name) = Some (privateKey u)"
  by (simp add: findOne_select_privateKey_def select_plus_privateKey_def)

lemma no_key_mask: "no_key (privateKey (mask_privateKey u)) = no_key (privateKey u)"
  by (simp add: mask_privateKey_def no_key_def split: option.splits)

lemma without_mask: "without_privateKey (mask_privateKey u) = without_privateKey u"
  by (simp add: without_privateKey_def mask_privateKey_def)

lemma find_mask:
  assumes "map mask_privateKey db = map mask_privateKey db'"
  shows "map_option mask_privateKey (find (\<lambda>u. username u = n) db)
           = map_option mask_privateKey (find (\<lambda>u. username u = n) db')"
proof -
  have u: "username (mask_privateKey u) = username u" for u
    by (simp add: mask_privateKey_def)
  show ?thesis
    using find_username_map [of mask_privateKey n db, OF u]
      find_username_map [of mask_privateKey n db', OF u] assms
    by simp
qed

lemma migrate_users_logged:
  "snd (migrate_users gens docs db)
     = map (\<lambda>u. generated_keys_line (username u))
         (filter (\<lambda>u. no_key (publicKey u) \<or> no_key (privateKey u)) docs)"
proof (induction docs arbitrary: db)
  case Nil
  show ?case by simp
next
  case (Cons user users)
  show ?case
  proof (cases "no_key (publicKey user) \<or> no_key (privateKey user)")
    case True
    obtain pub priv where g: "gens (username user) ''rsa'' rsa_options = (pub, priv)"
      by (cases "gens (username user) ''rsa'' rsa_options")
    let ?db = "fst (save (gens (username user)) db
                 (user\<lparr>publicKey := Some pub, privateKey := Some priv\<rparr>))"
    obtain db' logged where r: "migrate_users gens users ?db = (db', logged)"
      by (cases "migrate_users gens users ?db")
    have "logged = map (\<lambda>u. generated_keys_line (username u))
                     (filter (\<lambda>u. no_key (publicKey u) \<or> no_key (privateKey u)) users)"
      using Cons.IH [of ?db] r by simp
    then show ?thesis
      using True g r by simp
  next
    case False
    then show ?thesis
      by (simp add: Cons.IH)
  qed
qed

lemma migrateKeys_logged:
  "snd (migrateKeys gens db)
     = map (\<lambda>u. generated_keys_line (username u))
         (filter (\<lambda>u. no_key (publicKey u) \<or> no_key (privateKey u)) db)"
  by (simp add: migrateKeys_def migrate_users_logged filter_map comp_def
      select_plus_privateKey_def)

lemma migrateKeys_logged_mask:
  "snd (migrateKeys gens (map mask_privateKey db)) = snd (migrateKeys gens db)"
proof -
  have a: "publicKey (mask_privateKey u) = publicKey u" for u
    by (simp add: mask_privateKey_def)
  have b: "username (mask_privateKey u) = username u" for u
    by (simp add: mask_privateKey_def)
  show ?thesis
    by (simp add: migrateKeys_logged filter_map comp_def a b no_key_mask)
qed

lemma migrateKeys_logs_usernames:
  "set (snd (migrateKeys gens db)) \<subseteq> (\<lambda>u. generated_keys_line (username u)) ` set db"
  by (auto simp: migrateKeys_logged)

lemma signed_request_error_cases:
  "signed_request env db name url act = Inl e \<longleftrightarrow>
     (case find (\<lambda>u. username u = name) db of
        None \<Rightarrow> e = PrivateKeyNotFound name
      | Some u \<Rightarrow>
          (if no_key (privateKey u) then e = PrivateKeyNotFound name
           else parse_url env url = None \<and> e = TypeError))"
  by (auto simp: signed_request_def findOne_select_privateKey_def select_plus_privateKey_def
      no_key_def Let_def split: option.splits)

lemma signed_request_error_mask:
  assumes m: "map mask_privateKey db = map mask_privateKey db'"
    and e: "signed_request env db name url act = Inl e"
  shows "signed_request env db' name url act = Inl e"
proof -
  note f = find_mask [OF m, of name]
  show ?thesis
  proof (cases "find (\<lambda>u. username u = name) db")
    case None
    with f have "find (\<lambda>u. username u = name) db' = None"
      by simp
    with None e show ?thesis
      by (simp add: signed_request_error_cases)
  next
    case (Some u)
    with f obtain u' where u': "find (\<lambda>u. username u = name) db' = Some u'"
      and mm: "mask_privateKey u = mask_privateKey u'"
      by (cases "find (\<lambda>u. username u = name) db'") auto
    have "no_key (privateKey u) = no_key (privateKey u')"
      using no_key_mask [of u] no_key_mask [of u'] mm by simp
    with Some u' e show ?thesis
      by (simp add: signed_request_error_cases)
  qed
qed

text \<open>
  C1, the claim as stated fails. It says that only internal signing callers use the
  read that includes the private key. The manual key regeneration and \<open>migrateKeys\<close>
  of KEY_MANAGEMENT.md sign nothing and read with \<open>.select("+privateKey")\<close>: they tell
  apart two collections that every default read sees alike, alice with her private key
  and alice without it. The first is left as it is and nothing is logged; in the second
  alice gets a new pair and \<open>migrateKeys\<close> logs a line for her.
\<close>

theorem elevated_read_outside_signing_counterexample:
  "findOne [alice] ''alice'' = findOne [alice\<lparr>privateKey := None\<rparr>] ''alice''
   \<and> regenerate_keys fresh_keys [alice] ''alice'' = Inr [alice]
   \<and> regenerate_keys fresh_keys [alice\<lparr>privateKey := None\<rparr>] ''alice''
       = Inr [alice\<lparr>publicKey := Some ''PUBLIC-B'', privateKey := Some ''PRIVATE-B''\<rparr>]
   \<and> snd (migrateKeys (\<lambda>n. fresh_keys) [alice]) = []
   \<and> snd (migrateKeys (\<lambda>n. fresh_keys) [alice\<lparr>privateKey := None\<rparr>])
       = [generated_keys_line ''alice'']"
  by (simp add: findOne_def default_select_def regenerate_keys_def migrateKeys_def
      findOne_select_privateKey_def select_plus_privateKey_def save_def pre_save_def
      write_back_def no_key_def fresh_keys_def alice_def)

text \<open>
  C1, amended. For every actor the private key is absent from every default read, from
  the Actor document, and from the log lines and error messages of the source; the
  read \<open>.select("+privateKey")\<close> returns the stored key, and it is used by the signer
  and by the key regeneration and migration scripts. In the theorem: two collections
  that store the same users with any private keys whatever give the same document to
  \<open>User.findOne\<close> and the same response of \<open>exports.actor\<close>; a document read by default
  carries no \<open>privateKey\<close>; the read with \<open>+privateKey\<close> returns the stored key; every
  line \<open>migrateKeys\<close> logs is made of a username of the collection; and when the two
  collections hold keys for the same users and differ in the key material only, the
  lines logged are the same and an error thrown by \<open>sendSignedRequest\<close> while it builds
  its request is the same.
\<close>

theorem private_key_hidden_by_default:
  assumes same: "map without_privateKey db = map without_privateKey db'"
  shows "findOne db name = findOne db' name
    \<and> actor base db name = actor base db' name
    \<and> (\<forall>u. findOne db name = Some u \<longrightarrow> privateKey u = None)
    \<and> (\<forall>u. find (\<lambda>u. username u = name) db = Some u \<longrightarrow>
          map_option privateKey (findOne_select_privateKey db name) = Some (privateKey u))
    \<and> set (snd (migrateKeys gens db)) \<subseteq> (\<lambda>u. generated_keys_line (username u)) ` set db
    \<and> (map mask_privateKey db = map mask_privateKey db' \<longrightarrow>
          snd (migrateKeys gens db) = snd (migrateKeys gens db')
          \<and> (\<forall>e. signed_request env db actorUsername inboxUrl activity = Inl e \<longrightarrow>
                signed_request env db' actorUsername inboxUrl activity = Inl e))"
proof -
  have eq: "findOne db name = findOne db' name" for name
    using findOne_without_privateKey [of db name] findOne_without_privateKey [of db' name] same
    by simp
  have act: "actor base db name = actor base db' name"
    by (simp add: actor_def eq)
  have logs: "snd (migrateKeys gens db) = snd (migrateKeys gens db')"
    if "map mask_privateKey db = map mask_privateKey db'"
    using that migrateKeys_logged_mask [of gens db] migrateKeys_logged_mask [of gens db']
    by simp
  show ?thesis
    using eq act findOne_hides findOne_select_privateKey_returns migrateKeys_logs_usernames
      logs signed_request_error_mask
    by blast
qed

text \<open>
  The amended C1 at a concrete collection: alice stored with two different private keys
  reads the same by default and has the same Actor document; her default document has
  no private key, the read with \<open>+privateKey\<close> returns \<open>PRIVATE-A\<close>; \<open>migrateKeys\<close>
  logs the same for both; signing for the unknown user carol fails alike on both.
\<close>

theorem private_key_hidden_by_default_witness:
  "map without_privateKey [alice]
     = map without_privateKey [alice\<lparr>privateKey := Some ''PRIVATE-Z''\<rparr>]
   \<and> map mask_privateKey [alice]
     = map mask_privateKey [alice\<lparr>privateKey := Some ''PRIVATE-Z''\<rparr>]
   \<and> findOne [alice] ''alice'' = findOne [alice\<lparr>privateKey := Some ''PRIVATE-Z''\<rparr>] ''alice''
   \<and> actor ''https://local.example'' [alice] ''alice''
       = actor ''https://local.example'' [alice\<lparr>privateKey := Some ''PRIVATE-Z''\<rparr>] ''alice''
   \<and> map_option privateKey (findOne [alice] ''alice'') = Some None
   \<and> map_option privateKey (findOne_select_privateKey [alice] ''alice'')
       = Some (Some ''PRIVATE-A'')
   \<and> snd (migrateKeys (\<lambda>n. fresh_keys) [alice])
       = snd (migrateKeys (\<lambda>n. fresh_keys) [alice\<lparr>privateKey := Some ''PRIVATE-Z''\<rparr>])
   \<and> signed_request example_env [alice] ''carol'' bob_inbox follow_bob
       = Inl (PrivateKeyNotFound ''carol'')
   \<and> signed_request example_env [alice\<lparr>privateKey := Some ''PRIVATE-Z''\<rparr>] ''carol''
         bob_inbox follow_bob
       = Inl (PrivateKeyNotFound ''carol'')"
proof -
  let ?db' = "[alice\<lparr>privateKey := Some ''PRIVATE-Z''\<rparr>]"
  have h: "map without_privateKey [alice] = map without_privateKey ?db'"
    by (simp add: without_privateKey_def)
  have m: "map mask_privateKey [alice] = map mask_privateKey ?db'"
    by (simp add: mask_privateKey_def alice_def)
  have f: "find (\<lambda>u. username u = ''alice'') [alice] = Some alice"
    by (simp add: alice_def)
  have d: "findOne [alice] ''alice'' = Some (default_select alice)"
    using f by (simp add: findOne_def)
  have c: "signed_request example_env [alice] ''carol'' bob_inbox follow_bob
             = Inl (PrivateKeyNotFound ''carol'')"
    by (simp add: signed_request_def findOne_select_privateKey_def alice_def)
  note T = private_key_hidden_by_default [OF h, of "''alice''" "''https://local.example''"
      "\<lambda>n. fresh_keys" example_env "''carol''" bob_inbox follow_bob]
  from T have t1: "findOne [alice] ''alice'' = findOne ?db' ''alice''"
    by (rule conjunct1)
  from T have t2: "actor ''https://local.example'' [alice] ''alice''
       = actor ''https://local.example'' ?db' ''alice''"
    by blast
  from T d have t3: "privateKey (default_select alice) = None"
    by blast
  from T f have t4: "map_option privateKey (findOne_select_privateKey [alice] ''alice'')
                       = Some (privateKey alice)"
    by blast
  from T m have t5: "snd (migrateKeys (\<lambda>n. fresh_keys) [alice])
                       = snd (migrateKeys (\<lambda>n. fresh_keys) ?db')"
    by blast
  from T m c have t6: "signed_request example_env ?db' ''carol'' bob_inbox follow_bob
                         = Inl (PrivateKeyNotFound ''carol'')"
    by blast
  show ?thesis
    using h m t1 t2 t3 t4 t5 t6 c d by (simp add: alice_def)
qed


section \<open>The pre-save hook\<close>

lemma pre_save_generates:
  "no_key (publicKey doc) \<or> no_key (privateKey doc) \<Longrightarrow>
   pre_save gen doc =
     doc\<lparr>publicKey := Some (fst (gen ''rsa'' rsa_options)),
         privateKey := Some (snd (gen ''rsa'' rsa_options))\<rparr>"
  by (simp add: pre_save_def split: prod.splits)

lemma pre_save_keeps_document_keys:
  "\<not> no_key (publicKey doc) \<Longrightarrow> \<not> no_key (privateKey doc) \<Longrightarrow> pre_save gen doc = doc"
  by (simp add: pre_save_def)

lemma pre_save_twice_on_document:
  assumes "fst (gen ''rsa'' rsa_options) \<noteq> []" and "snd (gen ''rsa'' rsa_options) \<noteq> []"
  shows "pre_save gen' (pre_save gen doc) = pre_save gen doc"
  using assms by (auto simp: pre_save_def no_key_def split: prod.splits option.splits)

lemma regenerate_keys_keeps_stored_pair:
  assumes "find (\<lambda>u. username u = name) db = Some u"
    and "\<not> no_key (publicKey u)" and "\<not> no_key (privateKey u)"
  shows "regenerate_keys gen db name = Inr db"
  using assms
  by (simp add: regenerate_keys_def findOne_select_privateKey_def select_plus_privateKey_def)

text \<open>
  C7. The claim: generation is a no-op that preserves the existing keys when the actor
  already has a keypair. The hook asks the document it is given, not the store: on a
  document that carries both keys it changes nothing (\<open>pre_save_keeps_document_keys\<close>),
  and run twice on one document it generates once (\<open>pre_save_twice_on_document\<close>). But
  a document read the default way never carries \<open>privateKey\<close>, so the hook takes the key
  for missing: the re-save of the troubleshooting section,
  \<open>User.findOne({ username: "alice" })\<close> followed by \<open>user.save()\<close>, run for alice who has
  a stored keypair, replaces both stored keys with new ones. The manual regeneration
  of the same section, which selects \<open>+privateKey\<close> first, leaves her keys alone.
\<close>

theorem resave_after_default_read_replaces_keys:
  "stored_keys [alice] ''alice'' = Some (Some ''PUBLIC-A'', Some ''PRIVATE-A'')
   \<and> resave fresh_keys [alice] ''alice''
       = Inr [alice\<lparr>publicKey := Some ''PUBLIC-B'', privateKey := Some ''PRIVATE-B''\<rparr>]
   \<and> regenerate_keys fresh_keys [alice] ''alice'' = Inr [alice]"
  by (simp add: stored_keys_def resave_def regenerate_keys_def save_def pre_save_def
      write_back_def findOne_def findOne_select_privateKey_def default_select_def
      select_plus_privateKey_def no_key_def fresh_keys_def alice_def)


section \<open>The canonical string and the digest\<close>







text \<open>
  C4. Whenever \<open>sendSignedRequest\<close> gets as far as sending, the request \<open>r\<close> it sends
  carries the header \<open>Digest: SHA-256=<d>\<close> where \<open>d\<close> is the base64 SHA-256 of the body
  of \<open>r\<close> itself; \<open>digest\<close> is one of the signed header names; and the signature in its
  Signature header is made, with the sender's private key, over the canonical string
  whose digest line is that same value.
\<close>

theorem digest_binds_posted_body:
  assumes sent: "signed_request env db actorUsername inboxUrl activity = Inr r"
  shows "req_body r = stringify env activity
    \<and> map_of (req_headers r) ''Digest'' = Some (''SHA-256='' @ sha256_base64 env (req_body r))
    \<and> ''digest'' \<in> set signed_header_names
    \<and> (\<exists>u key.
          parse_url env inboxUrl = Some u
          \<and> map_option privateKey (findOne_select_privateKey db actorUsername) = Some (Some key)
          \<and> map_of (req_headers r) ''Signature''
              = Some (buildHeader (BASE_URL env @ ''/users/'' @ actorUsername @ ''#main-key'')
                  signed_header_names
                  (sign_base64 env key
                     (canonicalString_spec ''post'' (pathname u) (host u) (toUTCString_now env)
                        (''SHA-256='' @ sha256_base64 env (req_body r))))))"
  using sent
  by (auto simp: signed_request_def request_headers_def signed_header_names_def Let_def
      signatureHeaders_def canonicalString_spec_def header_line_def
      split: option.splits if_splits)

text \<open>C4 at alice's Follow to bob's inbox.\<close>

theorem digest_binds_posted_body_witness:
  "signed_request (example_env) [alice] ''alice'' bob_inbox follow_bob
     = Inr example_request
   \<and> req_body example_request = ''follow-json''
   \<and> map_of (req_headers example_request) ''Digest'' = Some ''SHA-256=hash-of-follow-json''"
proof -
  have h: "signed_request (example_env) [alice] ''alice'' bob_inbox follow_bob
             = Inr example_request"
    by (simp add: signed_request_def example_env_def example_request_def alice_def
        findOne_select_privateKey_def select_plus_privateKey_def signatureHeaders_def)
  from digest_binds_posted_body [OF h]
  have "map_of (req_headers example_request) ''Digest''
          = Some (''SHA-256=''
              @ sha256_base64 (example_env) (req_body example_request))"
    by blast
  then show ?thesis
    using h by (simp add: example_env_def example_request_def)
qed


section \<open>Delivery: one attempt\<close>

lemma sendSignedRequest_build_error:
  "signed_request env db actorUsername inboxUrl activity = Inl e \<Longrightarrow>
   sendSignedRequest env db actorUsername inboxUrl activity net = (Some (Inl e), net)"
  by (simp add: sendSignedRequest_def)

text \<open>
  C8, the claim as stated fails. For a 503 answer to the first of at most five attempts
  the outcome policy of the claim gives \<open>retry_scheduled\<close>, and on this network the
  second request would meet a 200. \<open>sendSignedRequest\<close> has returned by then: its
  \<open>axios.post\<close> is rejected, the error goes to the caller, and the one request posted
  is all that was posted.
\<close>

theorem sendSignedRequest_no_retry_counterexample:
  "outcome_policy_spec (Final_status 503) 1 5 = Some Retry_scheduled
   \<and> answer_to (example_network (Final_status 503)) 1 = Final_status 200
   \<and> sendSignedRequest example_env [alice] ''alice'' bob_inbox follow_bob
        (example_network (Final_status 503))
       = (Some (Inl (AxiosBadStatus 503)),
          (example_network (Final_status 503))\<lparr>posted := [example_request]\<rparr>)"
  by (simp add: sendSignedRequest_def axios_post_def signed_request_def example_env_def
      example_network_def example_request_def alice_def findOne_select_privateKey_def
      select_plus_privateKey_def signatureHeaders_def)

text \<open>
  C8, amended. For every delivery attempt, that is whenever \<open>sendSignedRequest\<close> has
  built its request \<open>r\<close>: exactly one request, \<open>r\<close>, is posted, whatever comes of it. On
  a final status from 200 to 299 the call returns normally; on any other final status
  (a 5xx, a 429 and every other 4xx alike) and on a failed connection it ends at once
  with the axios error raised to the caller; with no response it never returns, since
  no timeout is set. Nothing is counted, delayed or posted again.
\<close>

theorem sendSignedRequest_single_attempt:
  assumes built: "signed_request env db actorUsername inboxUrl activity = Inr r"
  shows "snd (sendSignedRequest env db actorUsername inboxUrl activity net)
           = net\<lparr>posted := posted net @ [r]\<rparr>
    \<and> fst (sendSignedRequest env db actorUsername inboxUrl activity net)
        = (case answer_to net (length (posted net)) of
             Final_status s \<Rightarrow>
               if 200 \<le> s \<and> s < 300 then Some (Inr ()) else Some (Inl (AxiosBadStatus s))
           | Connection_error \<Rightarrow> Some (Inl AxiosNetworkError)
           | No_response \<Rightarrow> None)"
  using built by (simp add: sendSignedRequest_def axios_post_def split: wire.splits)

text \<open>The amended C8 at alice's Follow, answered with 429: one request, and the error.\<close>

theorem sendSignedRequest_single_attempt_witness:
  "signed_request example_env [alice] ''alice'' bob_inbox follow_bob = Inr example_request
   \<and> posted (snd (sendSignedRequest example_env [alice] ''alice'' bob_inbox follow_bob
        (example_network (Final_status 429)))) = [example_request]
   \<and> fst (sendSignedRequest example_env [alice] ''alice'' bob_inbox follow_bob
        (example_network (Final_status 429))) = Some (Inl (AxiosBadStatus 429))"
proof -
  have h: "signed_request example_env [alice] ''alice'' bob_inbox follow_bob = Inr example_request"
    by (simp add: signed_request_def example_env_def example_request_def alice_def
        findOne_select_privateKey_def select_plus_privateKey_def signatureHeaders_def)
  show ?thesis
    using h sendSignedRequest_single_attempt [OF h, of "example_network (Final_status 429)"]
    by (simp add: example_network_def)
qed


section \<open>The inbox accepts without verifying\<close>

text \<open>
  C3. The claim: a request that fails any verification step is rejected and changes no
  state. The inbox handler has no verification step (KEY_MANAGEMENT.md lists inbound
  signature verification as not yet implemented, action required): a Follow that
  carries no Signature header is processed like any other, bob becomes a follower of
  alice and an Accept goes out.
\<close>

theorem inbox_follow_accepts_unsigned:
  "map_of (in_headers unsigned_follow) ''Signature'' = None
   \<and> inbox_follow alice unsigned_follow
       = (alice\<lparr>followers := [bob_uri]\<rparr>, Accept (actorUrl alice) bob_uri)"
  by (simp add: inbox_follow_def unsigned_follow_def alice_def)

text \<open>
  C5. The claim: a request whose Date is more than five minutes from the current time
  is rejected as a stale request. The handler reads neither the Date header nor a clock:
  the Follow dated 09:54:00 that arrives at 10:00:00 is accepted, bob becomes a follower
  of alice. This is the missing verification of C3 again.
\<close>

theorem inbox_follow_accepts_stale_date:
  "map_of (in_headers stale_follow) ''Date'' = Some ''Mon, 02 Nov 2026 09:54:00 GMT''
   \<and> inbox_follow alice stale_follow
       = (alice\<lparr>followers := [bob_uri]\<rparr>, Accept (actorUrl alice) bob_uri)"
  by (simp add: inbox_follow_def stale_follow_def alice_def)

end
